theory Spec2Isabelle
  imports Complex_Main
begin

section \<open>NumPy arrays\<close>

text \<open>
  The notebook only works with two-dimensional NumPy arrays. An array carries its shape
  and its rows; the shape is kept apart from the rows because an array with no rows still
  has a column count, and broadcasting looks at both dimensions.

  The element type is a parameter: the tridiagonal matrices hold integers (no entry ever
  leaves the range of \<open>int64\<close>: the entries are \<open>-2\<close>, \<open>0\<close>, \<open>1\<close> and their
  products with \<open>-20\<close>; where NumPy makes such an array \<open>float64\<close>, because one
  of the lists is empty, the entries are the same whole numbers), the spin operators
  hold complex numbers.
\<close>

datatype 'a ndarray = NDArray (nrows: nat) (ncols: nat) (rows: "'a list list")

text \<open>\<open>ValueError: operands could not be broadcast together\<close>, the one exception the
  array arithmetic of the notebook can raise.\<close>

datatype error = BroadcastError

definition item :: "'a ndarray \<Rightarrow> nat \<Rightarrow> nat \<Rightarrow> 'a" where
  "item M i j = rows M ! i ! j"

text \<open>\<open>np.array\<close> of a nested list literal; the column count is that of the first row.\<close>

definition np_array :: "'a list list \<Rightarrow> 'a ndarray" where
  "np_array xss = NDArray (length xss) (case xss of [] \<Rightarrow> 0 | xs # _ \<Rightarrow> length xs) xss"

text \<open>
  \<open>np.diag(v, k)\<close> for a one-dimensional \<open>v\<close>: the square array of side
  \<open>len(v) + |k|\<close>, zero everywhere except on the \<open>k\<close>-th diagonal, which holds \<open>v\<close>.
  For \<open>k \<ge> 0\<close> the entry \<open>v[i]\<close> sits at \<open>(i, i + k)\<close>, for \<open>k < 0\<close> the entry
  \<open>v[j]\<close> sits at \<open>(j - k, j)\<close>.
\<close>

definition np_diag :: "'a::zero list \<Rightarrow> int \<Rightarrow> 'a ndarray" where
  "np_diag v k =
     (let n = length v + nat \<bar>k\<bar>
      in NDArray n n
           (map (\<lambda>i. map (\<lambda>j. if int j - int i = k then v ! (if 0 \<le> k then i else j) else 0)
                        [0..<n])
                [0..<n]))"

text \<open>
  NumPy broadcasting of one dimension: two sizes are compatible when they are equal or
  when one of them is \<open>1\<close>; the result has the other size. A dimension of size \<open>1\<close> is
  stretched, so every index into it reads position \<open>0\<close>.
\<close>

definition broadcast_dim :: "nat \<Rightarrow> nat \<Rightarrow> nat option" where
  "broadcast_dim a b =
     (if a = b then Some a else if a = 1 then Some b else if b = 1 then Some a else None)"

definition bidx :: "nat \<Rightarrow> nat \<Rightarrow> nat" where
  "bidx d i = (if d = 1 then 0 else i)"

text \<open>The elementwise \<open>+\<close> of two arrays, with broadcasting.\<close>

definition np_add :: "'a::plus ndarray \<Rightarrow> 'a ndarray \<Rightarrow> error + 'a ndarray" where
  "np_add P Q =
     (case broadcast_dim (nrows P) (nrows Q) of
        None \<Rightarrow> Inl BroadcastError
      | Some r \<Rightarrow>
         (case broadcast_dim (ncols P) (ncols Q) of
            None \<Rightarrow> Inl BroadcastError
          | Some c \<Rightarrow>
              Inr (NDArray r c
                (map (\<lambda>i. map (\<lambda>j. item P (bidx (nrows P) i) (bidx (ncols P) j)
                                    + item Q (bidx (nrows Q) i) (bidx (ncols Q) j))
                             [0..<c])
                     [0..<r]))))"

text \<open>
  \<open>+\<close> inside an expression: an exception raised by an operand, or by the addition
  itself, ends the evaluation; the left operand is evaluated first.
\<close>

definition add_r :: "error + 'a::plus ndarray \<Rightarrow> error + 'a ndarray \<Rightarrow> error + 'a ndarray" where
  "add_r a b =
     (case a of
        Inl x \<Rightarrow> Inl x
      | Inr P \<Rightarrow> (case b of Inl y \<Rightarrow> Inl y | Inr Q \<Rightarrow> np_add P Q))"

text \<open>
  A scalar times an array (\<open>s*M\<close>), an array times a scalar (\<open>M*s\<close>) and an array
  divided by a scalar (\<open>M/s\<close>): all elementwise, the shape is kept.
\<close>

definition np_scale :: "'a::times \<Rightarrow> 'a ndarray \<Rightarrow> 'a ndarray" where
  "np_scale s M = NDArray (nrows M) (ncols M) (map (map (\<lambda>x. s * x)) (rows M))"

definition np_times :: "'a::times ndarray \<Rightarrow> 'a \<Rightarrow> 'a ndarray" where
  "np_times M s = NDArray (nrows M) (ncols M) (map (map (\<lambda>x. x * s)) (rows M))"

definition np_divide :: "'a::inverse ndarray \<Rightarrow> 'a \<Rightarrow> 'a ndarray" where
  "np_divide M s = NDArray (nrows M) (ncols M) (map (map (\<lambda>x. x / s)) (rows M))"

text \<open>An operation that cannot fail itself, applied to an operand that may have failed.\<close>

definition lift_r :: "('a ndarray \<Rightarrow> 'b ndarray) \<Rightarrow> error + 'a ndarray \<Rightarrow> error + 'b ndarray" where
  "lift_r f a = (case a of Inl x \<Rightarrow> Inl x | Inr M \<Rightarrow> Inr (f M))"

text \<open>
  \<open>np.kron(P, Q)\<close> for two-dimensional arrays: the array of shape
  \<open>(rows P * rows Q, cols P * cols Q)\<close> whose entry at
  \<open>(i0 * rows Q + i1, j0 * cols Q + j1)\<close> is \<open>P[i0, j0] * Q[i1, j1]\<close>.
\<close>

definition np_kron :: "'a::times ndarray \<Rightarrow> 'a ndarray \<Rightarrow> 'a ndarray" where
  "np_kron P Q =
     NDArray (nrows P * nrows Q) (ncols P * ncols Q)
       (map (\<lambda>i. map (\<lambda>j. item P (i div nrows Q) (j div ncols Q)
                           * item Q (i mod nrows Q) (j mod ncols Q))
                    [0..<ncols P * ncols Q])
            [0..<nrows P * nrows Q])"

text \<open>The transpose and the conjugate transpose of an array.\<close>

definition transpose_nd :: "'a ndarray \<Rightarrow> 'a ndarray" where
  "transpose_nd M =
     NDArray (ncols M) (nrows M)
       (map (\<lambda>j. map (\<lambda>i. item M i j) [0..<nrows M]) [0..<ncols M])"

definition conj_transpose :: "complex ndarray \<Rightarrow> complex ndarray" where
  "conj_transpose M =
     NDArray (ncols M) (nrows M)
       (map (\<lambda>j. map (\<lambda>i. cnj (item M i j)) [0..<nrows M]) [0..<ncols M])"

section \<open>The tridiagonal finite-difference matrix\<close>

text \<open>
  \<^verbatim>\<open>
  def forward_diff_mat(nodes):
      return np.diag([-2]*nodes,0) + np.diag([1]*(nodes-1),1) + np.diag([1]*(nodes-1),-1)
  \<close>
  \<open>nodes\<close> is a Python integer; a list times a number that is not positive is the
  empty list, which is what \<open>replicate (nat n)\<close> gives.
\<close>

definition forward_diff_mat :: "int \<Rightarrow> error + int ndarray" where
  "forward_diff_mat nodes =
     add_r (add_r (Inr (np_diag (replicate (nat nodes) (- 2)) 0))
                  (Inr (np_diag (replicate (nat (nodes - 1)) 1) 1)))
           (Inr (np_diag (replicate (nat (nodes - 1)) 1) (- 1)))"

text \<open>
  The matrix the description of \<open>forward_diff_mat\<close> speaks of, written from its words:
  \<open>n\<close> by \<open>n\<close>, with \<open>-2\<close> where \<open>i = j\<close>, \<open>1\<close> where \<open>|i - j| = 1\<close> and \<open>0\<close>
  elsewhere.
\<close>

definition tridiagonal :: "nat \<Rightarrow> int ndarray" where
  "tridiagonal n =
     NDArray n n
       (map (\<lambda>i. map (\<lambda>j. if i = j then - 2 else if \<bar>int i - int j\<bar> = 1 then 1 else 0)
                    [0..<n])
            [0..<n])"

section \<open>The spin Hamiltonian\<close>

text \<open>
  The cells that set up the constants and assemble the Hamiltonian, in the order of the
  notebook. Python floats are read as the real numbers their literals denote, and
  \<open>complex128\<close> as \<open>complex\<close>: the arithmetic of the model is exact.
  \<^verbatim>\<open>
  e = 1.6e-19              # Electron charge (C)
  h = 6.625e-34            # Planck constant (Js)
  ge = 1.9987213544        # Electron Lande g factor
  gn = -2.26               # Neutron Lande g factor
  mu_B = 5.7962605e-5      # Bohr magnaton (eV/T)
  mu_n = 3.156739525e-8    # Nuclear magneton (eV/T)
  B = np.array([1, 1, 0])  # Magnetic field strength vector (Tesla)
  A = 117e6                # Fermi contact hyperfine constant (Hz)
  I =  np.diag([1]*2)      # Identity matrix
  \<close>
\<close>

definition e :: real where "e = 1.6 / 10 ^ 19"
definition h :: real where "h = 6.625 / 10 ^ 34"
definition ge :: real where "ge = 1.9987213544"
definition gn :: real where "gn = - 2.26"
definition mu_B :: real where "mu_B = 5.7962605 / 10 ^ 5"
definition mu_n :: real where "mu_n = 3.156739525 / 10 ^ 8"
definition B :: "int list" where "B = [1, 1, 0]"
definition A :: real where "A = 117 * 10 ^ 6"
definition I :: "complex ndarray" where "I = np_diag (replicate 2 1) 0"

text \<open>
  \<^verbatim>\<open>
  X = 0.5*np.array([[0,1],[1,0]])
  Y = 0.5*np.array([[0, -1j],[1j, 0]])
  Z = 0.5*np.array([[1, 0], [0, -1]])
  \<close>
\<close>

definition X :: "complex ndarray" where
  "X = np_scale 0.5 (np_array [[0, 1], [1, 0]])"

definition Y :: "complex ndarray" where
  "Y = np_scale 0.5 (np_array [[0, - \<i>], [\<i>, 0]])"

definition Z :: "complex ndarray" where
  "Z = np_scale 0.5 (np_array [[1, 0], [0, - 1]])"

text \<open>
  \<^verbatim>\<open>
  H_zn = gn*mu_n*(B[0]*np.kron(X, I)+B[1]*np.kron(Y, I)+ B[2]*np.kron(Z, I)) # (eV)
  H_ze = ge*mu_B*(B[0]*np.kron(I, X)+B[1]*np.kron(I, Y)+ B[2]*np.kron(I, Z)) # eV
  H_z = (H_zn + H_ze)*e/h # Hz
  H_hf = A*(np.kron(X, X) + np.kron(Y, Y) + np.kron(Z, Z)) # Hz
  H = H_z + H_hf
  \<close>
  \<open>gn*mu_n*(...)\<close> is \<open>(gn*mu_n)*(...)\<close> and \<open>(...)*e/h\<close> is
  \<open>((...)*e)/h\<close>, as Python groups them.

  The cells read the global \<open>B\<close>. Each expression that reads it is written once, as a
  function of the field vector (\<open>H_zn_of\<close>, \<open>H_ze_of\<close>, \<open>H_z_of\<close>, \<open>H_of\<close>), so
  that a statement can range over every field; the variables of the notebook are these
  expressions at \<open>B\<close>. The indices \<open>0\<close>, \<open>1\<close>, \<open>2\<close> are within the three entries of
  \<open>B\<close>.
\<close>

definition H_zn_of :: "int list \<Rightarrow> error + complex ndarray" where
  "H_zn_of Bv =
     lift_r (np_scale (complex_of_real (gn * mu_n)))
       (add_r (add_r (Inr (np_scale (of_int (Bv ! 0)) (np_kron X I)))
                     (Inr (np_scale (of_int (Bv ! 1)) (np_kron Y I))))
              (Inr (np_scale (of_int (Bv ! 2)) (np_kron Z I))))"

definition H_zn :: "error + complex ndarray" where
  "H_zn = H_zn_of B"

definition H_ze_of :: "int list \<Rightarrow> error + complex ndarray" where
  "H_ze_of Bv =
     lift_r (np_scale (complex_of_real (ge * mu_B)))
       (add_r (add_r (Inr (np_scale (of_int (Bv ! 0)) (np_kron I X)))
                     (Inr (np_scale (of_int (Bv ! 1)) (np_kron I Y))))
              (Inr (np_scale (of_int (Bv ! 2)) (np_kron I Z))))"

definition H_ze :: "error + complex ndarray" where
  "H_ze = H_ze_of B"

definition H_z_of :: "int list \<Rightarrow> error + complex ndarray" where
  "H_z_of Bv =
     lift_r (\<lambda>M. np_divide (np_times M (complex_of_real e)) (complex_of_real h))
       (add_r (H_zn_of Bv) (H_ze_of Bv))"

definition H_z :: "error + complex ndarray" where
  "H_z = H_z_of B"

definition H_hf :: "error + complex ndarray" where
  "H_hf =
     lift_r (np_scale (complex_of_real A))
       (add_r (add_r (Inr (np_kron X X)) (Inr (np_kron Y Y))) (Inr (np_kron Z Z)))"

definition H_of :: "int list \<Rightarrow> error + complex ndarray" where
  "H_of Bv = add_r (H_z_of Bv) H_hf"

definition H :: "error + complex ndarray" where
  "H = H_of B"

text \<open>
  The Hamiltonian as the description words it, on plain lists of rows: the Pauli
  matrices, one half of each as spin operator, the identity, the Kronecker product as a
  block matrix (every entry of the left factor replaced by that entry times the right
  factor), and the three terms for a field \<open>Bv\<close>. The sum of the two Zeeman terms is
  converted from eV to Hz as the formula \<open>H = (H_zn + H_ze)*e/h + H_hf\<close> has it:
  times \<open>e\<close>, then divided by \<open>h\<close>.
\<close>

definition pauli_x :: "complex list list" where "pauli_x = [[0, 1], [1, 0]]"
definition pauli_y :: "complex list list" where "pauli_y = [[0, - \<i>], [\<i>, 0]]"
definition pauli_z :: "complex list list" where "pauli_z = [[1, 0], [0, - 1]]"
definition identity_2 :: "complex list list" where "identity_2 = [[1, 0], [0, 1]]"

definition smult :: "complex \<Rightarrow> complex list list \<Rightarrow> complex list list" where
  "smult c M = map (map (\<lambda>x. c * x)) M"

definition mtimes :: "complex list list \<Rightarrow> complex \<Rightarrow> complex list list" where
  "mtimes M c = map (map (\<lambda>x. x * c)) M"

definition mdivide :: "complex list list \<Rightarrow> complex \<Rightarrow> complex list list" where
  "mdivide M c = map (map (\<lambda>x. x / c)) M"

definition madd :: "complex list list \<Rightarrow> complex list list \<Rightarrow> complex list list" where
  "madd M N = map2 (map2 (+)) M N"

definition kronecker :: "complex list list \<Rightarrow> complex list list \<Rightarrow> complex list list" where
  "kronecker M N =
     concat (map (\<lambda>mrow. map (\<lambda>nrow. concat (map (\<lambda>m. map (\<lambda>n. m * n) nrow) mrow)) N) M)"

definition spec_X :: "complex list list" where "spec_X = smult (1 / 2) pauli_x"
definition spec_Y :: "complex list list" where "spec_Y = smult (1 / 2) pauli_y"
definition spec_Z :: "complex list list" where "spec_Z = smult (1 / 2) pauli_z"

definition spec_H_zn :: "int list \<Rightarrow> complex list list" where
  "spec_H_zn Bv =
     smult (complex_of_real (gn * mu_n))
       (madd (madd (smult (of_int (Bv ! 0)) (kronecker spec_X identity_2))
                   (smult (of_int (Bv ! 1)) (kronecker spec_Y identity_2)))
             (smult (of_int (Bv ! 2)) (kronecker spec_Z identity_2)))"

definition spec_H_ze :: "int list \<Rightarrow> complex list list" where
  "spec_H_ze Bv =
     smult (complex_of_real (ge * mu_B))
       (madd (madd (smult (of_int (Bv ! 0)) (kronecker identity_2 spec_X))
                   (smult (of_int (Bv ! 1)) (kronecker identity_2 spec_Y)))
             (smult (of_int (Bv ! 2)) (kronecker identity_2 spec_Z)))"

definition spec_H_hf :: "complex list list" where
  "spec_H_hf =
     smult (complex_of_real A)
       (madd (madd (kronecker spec_X spec_X) (kronecker spec_Y spec_Y))
             (kronecker spec_Z spec_Z))"

definition spec_H :: "int list \<Rightarrow> complex list list" where
  "spec_H Bv =
     madd (mdivide (mtimes (madd (spec_H_zn Bv) (spec_H_ze Bv)) (complex_of_real e))
                   (complex_of_real h))
          spec_H_hf"

section \<open>Sparse representations\<close>

text \<open>
  A SciPy matrix in compressed sparse row format: the shape and the three arrays
  \<open>indptr\<close>, \<open>indices\<close>, \<open>data\<close>. The column indices of row \<open>i\<close> are
  \<open>indices[indptr[i]:indptr[i+1]]\<close> and its values are
  \<open>data[indptr[i]:indptr[i+1]]\<close>.
\<close>

datatype 'a csr = CSR (shape: "nat \<times> nat") (indptr: "nat list") (indices: "nat list")
  (data: "'a list")

text \<open>The columns of row \<open>i\<close> that hold a nonzero entry, in ascending order.\<close>

definition nz_cols :: "'a::zero ndarray \<Rightarrow> nat \<Rightarrow> nat list" where
  "nz_cols M i = filter (\<lambda>j. item M i j \<noteq> 0) [0..<ncols M]"

text \<open>The running totals of a list of counts, starting from \<open>acc\<close>.\<close>

fun cumsum :: "nat \<Rightarrow> nat list \<Rightarrow> nat list" where
  "cumsum acc [] = [acc]"
| "cumsum acc (c # cs) = acc # cumsum (acc + c) cs"

text \<open>
  \<open>sparse.csr_matrix(M)\<close> for a dense \<open>M\<close>: the nonzero entries are collected row by
  row, within a row by ascending column; \<open>indptr\<close> counts the entries before each row.
\<close>

definition csr_matrix :: "'a::zero ndarray \<Rightarrow> 'a csr" where
  "csr_matrix M =
     CSR (nrows M, ncols M)
       (cumsum 0 (map (\<lambda>i. length (nz_cols M i)) [0..<nrows M]))
       (concat (map (nz_cols M) [0..<nrows M]))
       (concat (map (\<lambda>i. map (item M i) (nz_cols M i)) [0..<nrows M]))"

text \<open>
  \<open>S.todense()\<close>: a zero matrix of the shape of \<open>S\<close>, to which every stored entry is
  added at its row and column.
\<close>

definition todense :: "'a::{zero,plus} csr \<Rightarrow> 'a ndarray" where
  "todense S =
     (case shape S of (r, c) \<Rightarrow>
        NDArray r c
          (map (\<lambda>i. fold (\<lambda>jj row. row[indices S ! jj := row ! (indices S ! jj) + data S ! jj])
                         [indptr S ! i..<indptr S ! Suc i]
                         (replicate c 0))
               [0..<r]))"

text \<open>
  The dense matrix of the sparse-format cells, its CSR form and the dense matrix made
  from that again. (The notebook binds the first to \<open>H\<close> anew; here it has a name of
  its own.)
  \<^verbatim>\<open>
  H = -20*forward_diff_mat(500)
  H_csr = sparse.csr_matrix(H)
  H_normal = H_csr.todense()
  \<close>
\<close>

definition H_500 :: "error + int ndarray" where
  "H_500 = lift_r (np_scale (- 20)) (forward_diff_mat 500)"

definition H_csr :: "error + int csr" where
  "H_csr = (case H_500 of Inl x \<Rightarrow> Inl x | Inr M \<Rightarrow> Inr (csr_matrix M))"

definition H_normal :: "error + int ndarray" where
  "H_normal = (case H_csr of Inl x \<Rightarrow> Inl x | Inr S \<Rightarrow> Inr (todense S))"

text \<open>An array whose rows agree with its shape.\<close>

definition well_shaped :: "'a ndarray \<Rightarrow> bool" where
  "well_shaped M \<longleftrightarrow>
     length (rows M) = nrows M \<and> list_all (\<lambda>row. length row = ncols M) (rows M)"

section \<open>The structure of the notebook\<close>

text \<open>
  The statements of the code cells, by kind: an import with the module it names, a
  \<open>def\<close> with the name of the function, an assignment with the names it binds, an
  expression statement with the function it calls, a \<open>for\<close> loop with its body.
\<close>

datatype stmt =
    Import string
  | FunctionDef string
  | Assign "string list"
  | Expr string
  | For "stmt list"

text \<open>The code cells of the notebook in order, each with the statements at its top level.\<close>

definition notebook :: "stmt list list" where
  "notebook =
    [[Import ''numpy'', Import ''matplotlib'', Import ''time'', Import ''scipy.sparse''],
     [FunctionDef ''matshow_cbar''],
     [Assign [''e''], Assign [''h''], Assign [''ge''], Assign [''gn''], Assign [''mu_B''],
      Assign [''mu_n''], Assign [''B''], Assign [''A''], Assign [''I'']],
     [Expr ''print'', Expr ''print''],
     [Assign [''X''], Assign [''Y''], Assign [''Z'']],
     [Expr ''print'', Expr ''print'', Expr ''print''],
     [Assign [''H_zn''], Expr ''print''],
     [Expr ''matshow_cbar'', Expr ''matshow_cbar''],
     [Assign [''H_ze''], Assign [''H_z''], Assign [''H_hf''], Assign [''H'']],
     [Assign [''vals'', ''vecs''], For [Expr ''print'']],
     [FunctionDef ''forward_diff_mat''],
     [Assign [''H''], Expr ''print'', Expr ''print'',
      Assign [''H_csc''], Expr ''print'', Expr ''print'',
      Assign [''H_csr''], Expr ''print'', Expr ''print'',
      Assign [''H_dok''], Expr ''print'', Expr ''print'',
      Assign [''H_lil''], Expr ''print'', Expr ''print''],
     [Assign [''H_normal''], Expr ''print''],
     [Expr ''H_csc.conj''],
     [Expr ''print'', Expr ''print'', Expr ''print'', Expr ''print'', Expr ''print'',
      Expr ''print'', Expr ''print'', Expr ''print'', Expr ''print'', Expr ''print'',
      Expr ''print''],
     [Assign [''start''], For [Assign [''a'']], Assign [''end''], Expr ''print'',
      Expr ''print''],
     [Assign [''nodes''], Assign [''H''], Expr ''print'',
      Assign [''start''], Assign [''H_csr''], Assign [''end''], Expr ''print'',
      Expr ''print'', Expr ''print'',
      Assign [''start''], Assign [''H_lil''], Assign [''end''], Expr ''print'',
      Expr ''print''],
     [Assign [''Repeats'']],
     [Expr ''print'', Assign [''start''], For [Assign [''a'']], Assign [''end''],
      Expr ''print'', Expr ''print''],
     [Expr ''print'', Assign [''start''], For [Assign [''a'']], Assign [''end''],
      Expr ''print'', Expr ''print''],
     [Expr ''print'', Assign [''start''], For [Assign [''a'']], Assign [''end''],
      Expr ''print'', Expr ''print''],
     [Assign [''H''], Expr ''print'', Expr ''print'', Expr ''print'',
      Assign [''H_csr''], Expr ''print'', Expr ''print'',
      Assign [''H_lil''], Expr ''print''],
     []]"

text \<open>The functions a statement defines, and those the whole notebook defines.\<close>

fun defs_of :: "stmt \<Rightarrow> string list" where
  "defs_of (FunctionDef f) = [f]"
| "defs_of (For body) = concat (map defs_of body)"
| "defs_of _ = []"

definition functions_defined :: "stmt list list \<Rightarrow> string list" where
  "functions_defined cells = concat (map defs_of (concat cells))"

section \<open>Properties of the tridiagonal matrix\<close>

lemma bidx_id: "i < d \<Longrightarrow> bidx d i = i"
  by (auto simp: bidx_def)

lemma item_table:
  "i < r \<Longrightarrow> j < c \<Longrightarrow> item (NDArray r c (map (\<lambda>i. map (f i) [0..<c]) [0..<r])) i j = f i j"
  by (simp add: item_def)

lemma np_add_same_shape:
  "np_add (NDArray n m (map (\<lambda>i. map (f i) [0..<m]) [0..<n]))
          (NDArray n m (map (\<lambda>i. map (g i) [0..<m]) [0..<n]))
   = Inr (NDArray n m (map (\<lambda>i. map (\<lambda>j. f i j + g i j) [0..<m]) [0..<n]))"
  by (simp add: np_add_def broadcast_dim_def bidx_id item_table)

text \<open>From one node on, the three diagonals have the same shape and add up entry by entry.\<close>

lemma forward_diff_mat_pos:
  assumes "1 \<le> nodes"
  shows "forward_diff_mat nodes = Inr (tridiagonal (nat nodes))"
proof -
  define n where "n = nat nodes"
  have len: "length (replicate (nat (nodes - 1)) (1::int)) + nat \<bar>1\<bar> = n"
     "length (replicate (nat (nodes - 1)) (1::int)) + nat \<bar>- 1\<bar> = n"
     "length (replicate (nat nodes) (- 2::int)) + nat \<bar>0\<bar> = n"
    using assms by (auto simp: n_def)
  show ?thesis
    unfolding forward_diff_mat_def add_r_def np_diag_def Let_def len tridiagonal_def
      n_def[symmetric]
    by (auto simp: np_add_same_shape n_def)
qed

text \<open>
  Without nodes, the main diagonal is the empty \<open>0 \<times> 0\<close> array and each side diagonal is
  the \<open>1 \<times> 1\<close> zero array, which broadcasting stretches to \<open>0 \<times> 0\<close>.
\<close>

lemma forward_diff_mat_nonpos:
  assumes "nodes \<le> 0"
  shows "forward_diff_mat nodes = Inr (NDArray 0 0 [])"
  using assms
  by (simp add: forward_diff_mat_def add_r_def np_diag_def np_add_def broadcast_dim_def)

lemma forward_diff_mat_tridiagonal:
  "forward_diff_mat nodes = Inr (tridiagonal (nat nodes))"
proof (cases "1 \<le> nodes")
  case True
  then show ?thesis by (rule forward_diff_mat_pos)
next
  case False
  then show ?thesis by (simp add: forward_diff_mat_nonpos tridiagonal_def)
qed

lemma well_shaped_tridiagonal: "well_shaped (tridiagonal n)"
  by (simp add: well_shaped_def tridiagonal_def list_all_iff)

lemma well_shaped_np_scale: "well_shaped M \<Longrightarrow> well_shaped (np_scale s M)"
  by (simp add: well_shaped_def np_scale_def list_all_iff)

lemma item_tridiagonal:
  "i < n \<Longrightarrow> j < n \<Longrightarrow>
   item (tridiagonal n) i j = (if i = j then - 2 else if \<bar>int i - int j\<bar> = 1 then 1 else 0)"
  unfolding tridiagonal_def by (rule item_table)

lemma transpose_tridiagonal: "transpose_nd (tridiagonal n) = tridiagonal n"
  by (auto simp: transpose_nd_def tridiagonal_def item_table)

lemma np_scale_table:
  "np_scale s (NDArray r c (map (\<lambda>i. map (f i) [0..<c]) [0..<r]))
   = NDArray r c (map (\<lambda>i. map (\<lambda>j. s * f i j) [0..<c]) [0..<r])"
  by (simp add: np_scale_def comp_def)

lemma transpose_scaled_tridiagonal:
  "transpose_nd (np_scale s (tridiagonal n)) = np_scale s (tridiagonal n)"
  unfolding tridiagonal_def np_scale_table
  by (auto simp: transpose_nd_def item_table)

lemma upt_2: "[0..<2] = [0, 1]"
  by (simp add: upt_rec)

lemma upt_3: "[0..<3] = [0, 1, 2]"
  by (simp add: upt_rec)

lemma upt_4: "[0..<4] = [0, 1, 2, 3]"
  by (simp add: upt_rec)

text \<open>
  C3: for every \<open>nodes \<ge> 1\<close>, \<open>forward_diff_mat(nodes)\<close> returns (it does not raise) the
  \<open>nodes\<close> by \<open>nodes\<close> matrix whose entry at \<open>(i, j)\<close> is \<open>-2\<close> when \<open>i = j\<close>, \<open>1\<close>
  when \<open>|i - j| = 1\<close> and \<open>0\<close> otherwise.
\<close>

theorem forward_diff_mat_entries:
  assumes "1 \<le> nodes"
  shows "\<exists>M. forward_diff_mat nodes = Inr M
           \<and> nrows M = nat nodes \<and> ncols M = nat nodes \<and> well_shaped M
           \<and> (\<forall>i<nat nodes. \<forall>j<nat nodes.
                 item M i j = (if i = j then - 2 else if \<bar>int i - int j\<bar> = 1 then 1 else 0))"
proof (intro exI conjI)
  show "forward_diff_mat nodes = Inr (tridiagonal (nat nodes))"
    using assms by (rule forward_diff_mat_pos)
  show "nrows (tridiagonal (nat nodes)) = nat nodes" "ncols (tridiagonal (nat nodes)) = nat nodes"
    by (simp_all add: tridiagonal_def)
  show "well_shaped (tridiagonal (nat nodes))"
    by (rule well_shaped_tridiagonal)
  show "\<forall>i<nat nodes. \<forall>j<nat nodes.
          item (tridiagonal (nat nodes)) i j
          = (if i = j then - 2 else if \<bar>int i - int j\<bar> = 1 then 1 else 0)"
    by (simp add: item_tridiagonal)
qed

theorem forward_diff_mat_entries_witness:
  "(1::int) \<le> 3 \<and>
   (\<exists>M. forward_diff_mat 3 = Inr M \<and> nrows M = 3 \<and> ncols M = 3
        \<and> item M 0 0 = - 2 \<and> item M 0 1 = 1 \<and> item M 0 2 = 0
        \<and> item M 1 0 = 1 \<and> item M 1 1 = - 2 \<and> item M 1 2 = 1
        \<and> item M 2 0 = 0 \<and> item M 2 1 = 1 \<and> item M 2 2 = - 2)"
proof -
  have h: "(1::int) \<le> 3" by simp
  from forward_diff_mat_entries[OF h] obtain M where
    M: "forward_diff_mat 3 = Inr M" "nrows M = 3" "ncols M = 3" and
    entries: "\<And>i j. i < 3 \<Longrightarrow> j < 3 \<Longrightarrow>
       item M i j = (if i = j then - 2 else if \<bar>int i - int j\<bar> = 1 then 1 else 0)"
    by auto
  have "item M 0 0 = - 2" "item M 0 1 = 1" "item M 0 2 = 0"
       "item M 1 0 = 1" "item M 1 1 = - 2" "item M 1 2 = 1"
       "item M 2 0 = 0" "item M 2 1 = 1" "item M 2 2 = - 2"
    by (simp_all add: entries)
  with M h show ?thesis by blast
qed

text \<open>
  C9: for every \<open>nodes \<ge> 1\<close> the matrix returned by \<open>forward_diff_mat(nodes)\<close> equals its
  own transpose, and so does \<open>-20\<close> times it, the dense matrix handed to the sparse
  formats (a real symmetric matrix is Hermitian).
\<close>

theorem forward_diff_mat_symmetric:
  assumes "1 \<le> nodes"
  shows "\<exists>M. forward_diff_mat nodes = Inr M \<and> transpose_nd M = M
           \<and> transpose_nd (np_scale (- 20) M) = np_scale (- 20) M"
  using assms
  by (simp add: forward_diff_mat_pos transpose_tridiagonal transpose_scaled_tridiagonal)

theorem forward_diff_mat_symmetric_witness:
  "(1::int) \<le> 3 \<and>
   (\<exists>M. forward_diff_mat 3 = Inr M \<and> transpose_nd M = M
        \<and> transpose_nd (np_scale (- 20) M) = np_scale (- 20) M)"
  using forward_diff_mat_symmetric[of 3] by simp

text \<open>
  C10, as claimed: \<open>forward_diff_mat(0)\<close> fails with a shape-mismatch error. It does not:
  the call returns a value.
\<close>

theorem forward_diff_mat_0_no_error: "\<not> isl (forward_diff_mat 0)"
  by (simp add: forward_diff_mat_nonpos)

text \<open>
  C10, amended: for \<open>nodes = 0\<close> the three \<open>np.diag\<close> terms have different shapes, a
  \<open>0 \<times> 0\<close> main diagonal and two \<open>1 \<times> 1\<close> zero matrices, but these shapes broadcast:
  the call returns the empty \<open>0 \<times> 0\<close> matrix.
\<close>

theorem forward_diff_mat_0_empty:
  "np_diag (replicate (nat 0) (- 2 :: int)) 0 = NDArray 0 0 []
   \<and> np_diag (replicate (nat (0 - 1)) (1 :: int)) 1 = NDArray 1 1 [[0]]
   \<and> np_diag (replicate (nat (0 - 1)) (1 :: int)) (- 1) = NDArray 1 1 [[0]]
   \<and> np_add (NDArray 0 0 []) (NDArray 1 1 [[0 :: int]]) = Inr (NDArray 0 0 [])
   \<and> forward_diff_mat 0 = Inr (NDArray 0 0 [])"
  by (simp add: forward_diff_mat_def add_r_def np_diag_def np_add_def broadcast_dim_def)

section \<open>Properties of the spin Hamiltonian\<close>

lemma I_val: "I = NDArray 2 2 [[1, 0], [0, 1]]"
  by (simp add: I_def np_diag_def upt_2 numeral_2_eq_2)

lemma X_val: "X = NDArray 2 2 [[0, 1 / 2], [1 / 2, 0]]"
  by (simp add: X_def np_scale_def np_array_def)

lemma Y_val: "Y = NDArray 2 2 [[0, - \<i> / 2], [\<i> / 2, 0]]"
  by (simp add: Y_def np_scale_def np_array_def)

lemma Z_val: "Z = NDArray 2 2 [[1 / 2, 0], [0, - 1 / 2]]"
  by (simp add: Z_def np_scale_def np_array_def)

lemma np_kron_2_2:
  "np_kron (NDArray 2 2 [[a11, a12], [a21, a22]]) (NDArray 2 2 [[b11, b12], [b21, b22]])
   = NDArray 4 4 [[a11 * b11, a11 * b12, a12 * b11, a12 * b12],
                  [a11 * b21, a11 * b22, a12 * b21, a12 * b22],
                  [a21 * b11, a21 * b12, a22 * b11, a22 * b12],
                  [a21 * b21, a21 * b22, a22 * b21, a22 * b22]]"
  by (simp add: np_kron_def item_def upt_4)

lemma np_add_4_4:
  "np_add (NDArray 4 4 [[a11, a12, a13, a14], [a21, a22, a23, a24],
                        [a31, a32, a33, a34], [a41, a42, a43, a44]])
          (NDArray 4 4 [[b11, b12, b13, b14], [b21, b22, b23, b24],
                        [b31, b32, b33, b34], [b41, b42, b43, b44]])
   = Inr (NDArray 4 4 [[a11 + b11, a12 + b12, a13 + b13, a14 + b14],
                       [a21 + b21, a22 + b22, a23 + b23, a24 + b24],
                       [a31 + b31, a32 + b32, a33 + b33, a34 + b34],
                       [a41 + b41, a42 + b42, a43 + b43, a44 + b44]])"
  by (simp add: np_add_def broadcast_dim_def bidx_def item_def upt_4)

lemma conj_transpose_4_4:
  "conj_transpose (NDArray 4 4 [[a11, a12, a13, a14], [a21, a22, a23, a24],
                                [a31, a32, a33, a34], [a41, a42, a43, a44]])
   = NDArray 4 4 [[cnj a11, cnj a21, cnj a31, cnj a41],
                  [cnj a12, cnj a22, cnj a32, cnj a42],
                  [cnj a13, cnj a23, cnj a33, cnj a43],
                  [cnj a14, cnj a24, cnj a34, cnj a44]]"
  by (simp add: conj_transpose_def item_def upt_4)

lemmas spin_simps = H_def H_z_def H_zn_def H_ze_def H_of_def H_z_of_def H_zn_of_def
  H_ze_of_def H_hf_def B_def I_val X_val Y_val Z_val
  add_r_def lift_r_def np_kron_2_2 np_add_4_4 np_scale_def np_times_def np_divide_def

lemmas spec_simps = spec_H_def spec_H_zn_def spec_H_ze_def spec_H_hf_def spec_X_def spec_Y_def
  spec_Z_def pauli_x_def pauli_y_def pauli_z_def identity_2_def smult_def mtimes_def
  mdivide_def madd_def kronecker_def

text \<open>
  C1: the assembled \<open>4 \<times> 4\<close> spin Hamiltonian \<open>H = (H_zn + H_ze)*e/h + H_hf\<close> is
  Hermitian: the assembly raises no error and \<open>H\<close> equals its conjugate transpose.
\<close>

theorem H_hermitian:
  "\<exists>M. H = Inr M \<and> nrows M = 4 \<and> ncols M = 4 \<and> well_shaped M \<and> conj_transpose M = M"
  by (simp add: spin_simps conj_transpose_4_4 well_shaped_def)

text \<open>
  C2: the Hamiltonian the cells compute is the sum of the nuclear Zeeman term
  \<open>gn*mu_n*(B[0]*kron(X,I) + B[1]*kron(Y,I) + B[2]*kron(Z,I))\<close>, the electron Zeeman
  term \<open>ge*mu_B*(B[0]*kron(I,X) + B[1]*kron(I,Y) + B[2]*kron(I,Z))\<close>, both converted
  by \<open>e/h\<close>, and the hyperfine term \<open>A*(kron(X,X) + kron(Y,Y) + kron(Z,Z))\<close>, with
  \<open>X\<close>, \<open>Y\<close>, \<open>Z\<close> one half times the Pauli matrices and \<open>I\<close> the identity. This
  holds for every field \<open>[b0, b1, b2]\<close>, so that each of the nine Kronecker terms is
  checked, and in particular for the field \<open>B\<close> of the notebook.
\<close>

theorem H_construction:
  "H_zn_of [b0, b1, b2] = Inr (NDArray 4 4 (spec_H_zn [b0, b1, b2]))
   \<and> H_ze_of [b0, b1, b2] = Inr (NDArray 4 4 (spec_H_ze [b0, b1, b2]))
   \<and> H_hf = Inr (NDArray 4 4 spec_H_hf)
   \<and> H_of [b0, b1, b2] = Inr (NDArray 4 4 (spec_H [b0, b1, b2]))
   \<and> H_zn = Inr (NDArray 4 4 (spec_H_zn B))
   \<and> H_ze = Inr (NDArray 4 4 (spec_H_ze B))
   \<and> H = Inr (NDArray 4 4 (spec_H B))"
proof (intro conjI)
  show "H_zn_of [b0, b1, b2] = Inr (NDArray 4 4 (spec_H_zn [b0, b1, b2]))"
    by (simp add: spin_simps spec_simps)
  show "H_ze_of [b0, b1, b2] = Inr (NDArray 4 4 (spec_H_ze [b0, b1, b2]))"
    by (simp add: spin_simps spec_simps)
  show "H_hf = Inr (NDArray 4 4 spec_H_hf)"
    by (simp add: spin_simps spec_simps)
  show "H_of [b0, b1, b2] = Inr (NDArray 4 4 (spec_H [b0, b1, b2]))"
    by (simp add: spin_simps spec_simps)
  show "H_zn = Inr (NDArray 4 4 (spec_H_zn B))"
    by (simp add: spin_simps spec_simps)
  show "H_ze = Inr (NDArray 4 4 (spec_H_ze B))"
    by (simp add: spin_simps spec_simps)
  show "H = Inr (NDArray 4 4 (spec_H B))"
    by (simp add: spin_simps spec_simps)
qed

section \<open>The CSR round trip\<close>

lemma cumsum_nth: "k \<le> length cs \<Longrightarrow> cumsum acc cs ! k = acc + sum_list (take k cs)"
proof (induction cs arbitrary: acc k)
  case Nil
  then show ?case by simp
next
  case (Cons c cs)
  then show ?case by (cases k) auto
qed

text \<open>Where the \<open>m\<close>-th element of the \<open>k\<close>-th list lies in the concatenation.\<close>

lemma concat_nth_offset:
  "k < length xss \<Longrightarrow> m < length (xss ! k) \<Longrightarrow>
   concat xss ! (sum_list (map length (take k xss)) + m) = xss ! k ! m"
proof (induction xss arbitrary: k)
  case Nil
  then show ?case by simp
next
  case (Cons xs xss)
  show ?case
  proof (cases k)
    case 0
    with Cons.prems show ?thesis by (simp add: nth_append)
  next
    case (Suc k')
    with Cons.prems Cons.IH[of k'] show ?thesis by (simp add: nth_append add.assoc)
  qed
qed

text \<open>Adding a value at each of a list of distinct positions changes exactly those.\<close>

lemma fold_scatter:
  "distinct js \<Longrightarrow> length row = c \<Longrightarrow>
   fold (\<lambda>j row. row[j := row ! j + g j]) js row
   = map (\<lambda>j. if j \<in> set js then row ! j + g j else row ! j) [0..<c]"
proof (induction js arbitrary: row)
  case Nil
  then show ?case using map_nth[of row] by auto
next
  case (Cons j js)
  have "fold (\<lambda>j row. row[j := row ! j + g j]) (j # js) row
        = fold (\<lambda>j row. row[j := row ! j + g j]) js (row[j := row ! j + g j])"
    by simp
  also have "\<dots> = map (\<lambda>ja. if ja \<in> set js then row[j := row ! j + g j] ! ja + g ja
                         else row[j := row ! j + g j] ! ja) [0..<c]"
    using Cons.prems by (intro Cons.IH) auto
  also have "\<dots> = map (\<lambda>ja. if ja \<in> set (j # js) then row ! ja + g ja else row ! ja) [0..<c]"
  proof (rule map_cong[OF refl])
    fix ja assume "ja \<in> set [0..<c]"
    then have ja: "ja < length row" using Cons.prems by simp
    show "(if ja \<in> set js then row[j := row ! j + g j] ! ja + g ja
           else row[j := row ! j + g j] ! ja)
          = (if ja \<in> set (j # js) then row ! ja + g ja else row ! ja)"
    proof (cases "ja = j")
      case True
      with ja Cons.prems show ?thesis by simp
    next
      case False
      then show ?thesis by simp
    qed
  qed
  finally show ?case .
qed

text \<open>A loop over a slice of positions is a loop over the elements stored there.\<close>

lemma fold_slice:
  assumes "\<And>m. m < length ys \<Longrightarrow> f (p + m) = g (ys ! m)"
  shows "fold f [p..<p + length ys] z = fold g ys z"
proof -
  have "[p..<p + length ys] = map (\<lambda>m. p + m) [0..<length ys]"
    by (simp add: map_add_upt add.commute)
  then have "fold f [p..<p + length ys] z = fold (\<lambda>m. f (p + m)) [0..<length ys] z"
    by (simp add: fold_map comp_def)
  also have "\<dots> = fold (\<lambda>m. g (ys ! m)) [0..<length ys] z"
    by (rule fold_cong) (auto simp: assms)
  also have "\<dots> = fold g (map (\<lambda>m. ys ! m) [0..<length ys]) z"
    by (simp add: fold_map comp_def)
  also have "\<dots> = fold g ys z"
    using map_nth[of ys] by simp
  finally show ?thesis .
qed

lemma well_shaped_row:
  "well_shaped M \<Longrightarrow> i < nrows M \<Longrightarrow> length (rows M ! i) = ncols M"
  by (simp add: well_shaped_def list_all_length)

text \<open>The slice of row \<open>i\<close> in the CSR arrays holds the nonzero columns of that row.\<close>

lemma csr_row_slice:
  fixes M :: "'a::zero ndarray"
  assumes i: "i < nrows M"
  defines "S \<equiv> csr_matrix M"
  shows "indptr S ! Suc i = indptr S ! i + length (nz_cols M i)"
    and "m < length (nz_cols M i) \<Longrightarrow> indices S ! (indptr S ! i + m) = nz_cols M i ! m"
    and "m < length (nz_cols M i) \<Longrightarrow>
           data S ! (indptr S ! i + m) = item M i (nz_cols M i ! m)"
proof -
  let ?counts = "map (\<lambda>i. length (nz_cols M i)) [0..<nrows M]"
  let ?xss = "map (nz_cols M) [0..<nrows M]"
  let ?vss = "map (\<lambda>i. map (item M i) (nz_cols M i)) [0..<nrows M]"
  have p: "indptr S ! i = sum_list (take i ?counts)"
    using i by (simp add: S_def csr_matrix_def cumsum_nth)
  have "indptr S ! Suc i = sum_list (take (Suc i) ?counts)"
    using i by (simp add: S_def csr_matrix_def cumsum_nth)
  also have "take (Suc i) ?counts = take i ?counts @ [length (nz_cols M i)]"
    using i by (simp add: take_Suc_conv_app_nth)
  finally show "indptr S ! Suc i = indptr S ! i + length (nz_cols M i)"
    using p by simp
  have lx: "map length (take i ?xss) = take i ?counts"
    by (simp add: take_map comp_def)
  have lv: "map length (take i ?vss) = take i ?counts"
    by (simp add: take_map comp_def)
  show "indices S ! (indptr S ! i + m) = nz_cols M i ! m" if "m < length (nz_cols M i)"
    using concat_nth_offset[of i ?xss m] i that unfolding lx p
    by (simp add: S_def csr_matrix_def)
  show "data S ! (indptr S ! i + m) = item M i (nz_cols M i ! m)"
    if "m < length (nz_cols M i)"
    using concat_nth_offset[of i ?vss m] i that unfolding lv p
    by (simp add: S_def csr_matrix_def)
qed

lemma todense_row:
  fixes M :: "'a::monoid_add ndarray"
  assumes ws: "well_shaped M" and i: "i < nrows M"
  defines "S \<equiv> csr_matrix M"
  shows "fold (\<lambda>jj row. row[indices S ! jj := row ! (indices S ! jj) + data S ! jj])
              [indptr S ! i..<indptr S ! Suc i] (replicate (ncols M) 0)
         = rows M ! i"
proof -
  let ?js = "nz_cols M i"
  let ?g = "\<lambda>j (row :: 'a list). row[j := row ! j + item M i j]"
  have "fold (\<lambda>jj row. row[indices S ! jj := row ! (indices S ! jj) + data S ! jj])
              [indptr S ! i..<indptr S ! i + length ?js] (replicate (ncols M) 0)
        = fold ?g ?js (replicate (ncols M) 0)"
    by (rule fold_slice) (simp add: S_def csr_row_slice[OF i])
  also have "\<dots> = map (\<lambda>j. if j \<in> set ?js then replicate (ncols M) 0 ! j + item M i j
                                else replicate (ncols M) 0 ! j) [0..<ncols M]"
    by (rule fold_scatter) (simp_all add: nz_cols_def)
  also have "\<dots> = map (\<lambda>j. item M i j) [0..<ncols M]"
    by (rule map_cong[OF refl]) (auto simp: nz_cols_def)
  also have "\<dots> = rows M ! i"
    using map_nth[of "rows M ! i"] well_shaped_row[OF ws i] by (simp add: item_def)
  finally show ?thesis
    by (simp add: S_def csr_row_slice(1)[OF i])
qed

text \<open>Any dense matrix whose rows agree with its shape survives the round trip.\<close>

lemma todense_csr_matrix:
  fixes M :: "'a::monoid_add ndarray"
  assumes ws: "well_shaped M"
  shows "todense (csr_matrix M) = M"
proof -
  have "rows (todense (csr_matrix M)) = map (\<lambda>i. rows M ! i) [0..<nrows M]"
    unfolding todense_def
    by (simp add: csr_matrix_def[of M, THEN arg_cong[of _ _ shape]] todense_row[OF ws]
             cong: map_cong)
  also have "\<dots> = rows M"
    using map_nth[of "rows M"] ws by (simp add: well_shaped_def)
  finally have "rows (todense (csr_matrix M)) = rows M" .
  moreover have "nrows (todense (csr_matrix M)) = nrows M"
    "ncols (todense (csr_matrix M)) = ncols M"
    by (simp_all add: todense_def csr_matrix_def)
  ultimately show ?thesis
    by (simp add: ndarray.expand)
qed

lemma H_500_val: "H_500 = Inr (np_scale (- 20) (tridiagonal 500))"
  by (simp add: H_500_def lift_r_def forward_diff_mat_tridiagonal)

text \<open>
  C5: converting the dense matrix \<open>H = -20*forward_diff_mat(500)\<close> to CSR and back with
  \<open>todense\<close> gives a matrix equal to \<open>H\<close>: the same \<open>500 \<times> 500\<close> shape and the same
  entries.
\<close>

theorem csr_round_trip:
  "\<exists>M. H_500 = Inr M \<and> nrows M = 500 \<and> ncols M = 500 \<and> H_normal = Inr M"
proof (intro exI conjI)
  let ?M = "np_scale (- 20) (tridiagonal 500)"
  show "H_500 = Inr ?M"
    by (rule H_500_val)
  show "nrows ?M = 500" "ncols ?M = 500"
    by (simp_all add: np_scale_def tridiagonal_def)
  have "well_shaped ?M"
    by (intro well_shaped_np_scale well_shaped_tridiagonal)
  then show "H_normal = Inr ?M"
    by (simp add: H_normal_def H_csr_def H_500_val todense_csr_matrix)
qed

section \<open>The helper functions of the notebook\<close>

text \<open>
  C7, as claimed: the notebook defines exactly three helper functions. It does not.
\<close>

theorem three_helpers_counterexample: "length (functions_defined notebook) \<noteq> 3"
  by (simp add: functions_defined_def notebook_def)

text \<open>
  C7, amended: the notebook defines exactly two helper functions, the colorbar-plot
  wrapper \<open>matshow_cbar\<close> and the tridiagonal finite-difference matrix generator
  \<open>forward_diff_mat\<close>; the spin Hamiltonian is assembled by assignments at the top level
  of the cells.
\<close>

theorem two_helpers:
  "functions_defined notebook = [''matshow_cbar'', ''forward_diff_mat'']
   \<and> Assign [''H_zn''] \<in> set (concat notebook)
   \<and> Assign [''H_ze''] \<in> set (concat notebook)
   \<and> Assign [''H_z''] \<in> set (concat notebook)
   \<and> Assign [''H_hf''] \<in> set (concat notebook)
   \<and> Assign [''H''] \<in> set (concat notebook)"
  by (simp add: functions_defined_def notebook_def)

end
